theory Spec2Isabelle
  imports Main
begin

section \<open>Values, documents and exceptions\<close>

text \<open>
  The consent agent (\<^verbatim>\<open>basic_agent/consent_agent/consent.py\<close>) keeps one document per
  user in the collection \<^verbatim>\<open>user_consents\<close> and appends documents to the collection
  \<^verbatim>\<open>consent_audit_logs\<close>. A document is a Python dict from field names to values; the
  values that occur are \<^verbatim>\<open>None\<close>, booleans, strings and \<^verbatim>\<open>datetime\<close> objects. A
  \<^verbatim>\<open>datetime\<close> is modelled by its count of microseconds since \<^verbatim>\<open>datetime.min\<close>
  (in UTC when it carries a time zone) together with the mark that tells a naive
  datetime, such as \<^verbatim>\<open>datetime.utcnow()\<close> returns, from a timezone-aware one; a
  \<^verbatim>\<open>timedelta\<close> is an integer number of microseconds.
\<close>

datatype tzinfo = Naive | Aware

datatype val = VNone | VBool bool | VStr string | VTime tzinfo int

type_synonym doc = "string \<rightharpoonup> val"

text \<open>Python truthiness: \<^verbatim>\<open>None\<close>, \<^verbatim>\<open>False\<close> and the empty string are falsy, every
  \<^verbatim>\<open>datetime\<close> is truthy.\<close>

fun truthy :: "val \<Rightarrow> bool" where
  "truthy VNone = False"
| "truthy (VBool b) = b"
| "truthy (VStr s) = (s \<noteq> [])"
| "truthy (VTime z t) = True"

text \<open>\<^verbatim>\<open>d.get(k, default)\<close>.\<close>

definition dict_get :: "doc \<Rightarrow> string \<Rightarrow> val \<Rightarrow> val" where
  "dict_get d k dflt = (case d k of None \<Rightarrow> dflt | Some v \<Rightarrow> v)"

text \<open>The exceptions that travel through the agent. All of them are subclasses of
  \<^verbatim>\<open>Exception\<close>; only the first is a \<^verbatim>\<open>GoogleAPICallError\<close>.\<close>

datatype exn =
    GoogleAPICallError string
  | ValueError string
  | TypeError string
  | OverflowError string
  | OtherException string

fun str_exn :: "exn \<Rightarrow> string" where
  "str_exn (GoogleAPICallError m) = m"
| "str_exn (ValueError m) = m"
| "str_exn (TypeError m) = m"
| "str_exn (OverflowError m) = m"
| "str_exn (OtherException m) = m"

text \<open>\<^verbatim>\<open>expiry_date < datetime.utcnow()\<close>: the right operand is a naive datetime.
  Only a naive datetime on the left is ordered against it; a timezone-aware datetime and
  every value that is no datetime make Python raise \<^verbatim>\<open>TypeError\<close>.\<close>

fun lt_datetime :: "val \<Rightarrow> int \<Rightarrow> exn + bool" where
  "lt_datetime (VTime Naive t) now = Inr (t < now)"
| "lt_datetime (VTime Aware t) now =
     Inl (TypeError ''can not compare offset-naive and offset-aware datetimes'')"
| "lt_datetime VNone now = Inl (TypeError ''unorderable: NoneType < datetime'')"
| "lt_datetime (VBool b) now = Inl (TypeError ''unorderable: bool < datetime'')"
| "lt_datetime (VStr s) now = Inl (TypeError ''unorderable: str < datetime'')"

text \<open>\<^verbatim>\<open>datetime + timedelta\<close>: the sum must lie between \<^verbatim>\<open>datetime.min\<close> and
  \<^verbatim>\<open>datetime.max\<close> (the last microsecond of the year 9999), or Python raises
  \<^verbatim>\<open>OverflowError\<close>.\<close>

definition datetime_max :: int where
  "datetime_max = 315537897599999999"

definition representable :: "int \<Rightarrow> bool" where
  "representable t = (0 \<le> t \<and> t \<le> datetime_max)"

definition datetime_add :: "int \<Rightarrow> int \<Rightarrow> exn + int" where
  "datetime_add t delta =
     (if representable (t + delta)
      then Inr (t + delta)
      else Inl (OverflowError ''date value out of range''))"

text \<open>What \<^verbatim>\<open>to_dict()\<close> returns for a stored document: Firestore keeps a datetime as
  a timestamp and hands every timestamp back as a timezone-aware datetime in UTC; the
  other values come back as they were written.\<close>

fun read_back :: "val \<Rightarrow> val" where
  "read_back (VTime z t) = VTime Aware t"
| "read_back VNone = VNone"
| "read_back (VBool b) = VBool b"
| "read_back (VStr s) = VStr s"

definition to_dict :: "doc \<Rightarrow> doc" where
  "to_dict d = (\<lambda>k. case d k of None \<Rightarrow> None | Some v \<Rightarrow> Some (read_back v))"

section \<open>Configuration, environment and state\<close>

text \<open>The fields \<^verbatim>\<open>__init__\<close> sets from the process environment (the list
  \<^verbatim>\<open>REQUIRED_CONSENTS\<close> split at commas, the \<^verbatim>\<open>timedelta\<close> of
  \<^verbatim>\<open>DEFAULT_CONSENT_EXPIRY_DAYS\<close>), and the two service URLs that
  \<^verbatim>\<open>handle_data_violation\<close> reads with \<^verbatim>\<open>os.getenv\<close> (\<open>None\<close> when unset).\<close>

record config =
  required_consents :: "string list"
  default_expiry :: int
  data_detective_service_url :: "string option"
  dlp_service_url :: "string option"

text \<open>
  What the outside world does during one call of a method: whether each call into the
  Firestore client or the HTTP library raises (\<open>None\<close>: it returns normally), and
  what each call site of \<^verbatim>\<open>datetime.utcnow()\<close> reads. \<open>get_raises\<close> is the outcome of
  the lookup of lines 39-40 (building the document reference and reading it),
  \<open>ref_raises\<close> the outcome of building the document reference in line 85 (the client
  rejects a malformed document path with an exception), \<open>set_raises\<close> that of the write
  of line 101. Every call site of the clock runs at most once per method call: line 61
  (\<open>utcnow_check\<close>), line 90 (\<open>utcnow_stamp\<close>), line 91 (\<open>utcnow_expiry\<close>) and line 116
  (\<open>utcnow_audit\<close>).
\<close>

record env =
  get_raises :: "exn option"
  ref_raises :: "exn option"
  set_raises :: "exn option"
  audit_raises :: "exn option"
  post_block_raises :: "exn option"
  post_redact_raises :: "exn option"
  utcnow_check :: int
  utcnow_stamp :: int
  utcnow_expiry :: int
  utcnow_audit :: int

record audit_entry =
  au_user_id :: string
  au_timestamp :: int
  au_action :: string
  au_success :: bool
  au_service :: string

record request =
  url :: string
  json :: "(string \<times> string) list"

text \<open>The state the agent acts on: the two Firestore collections, the lines written
  with \<^verbatim>\<open>logging.error\<close>, and the HTTP requests handed to \<^verbatim>\<open>requests.post\<close>.\<close>

record world =
  user_consents :: "string \<rightharpoonup> doc"
  consent_audit_logs :: "audit_entry list"
  error_log :: "string list"
  posted :: "request list"

definition logging_error :: "string \<Rightarrow> world \<Rightarrow> world" where
  "logging_error msg w = w\<lparr>error_log := error_log w @ [msg]\<rparr>"

text \<open>The lookup of lines 39-40 and \<^verbatim>\<open>doc.to_dict()\<close> of line 46: the lookup raises, or
  yields the stored document as \<^verbatim>\<open>to_dict()\<close> returns it (\<open>None\<close> when \<^verbatim>\<open>doc.exists\<close>
  is false).\<close>

definition doc_get :: "env \<Rightarrow> string \<Rightarrow> world \<Rightarrow> exn + doc option" where
  "doc_get e user_id w =
     (case get_raises e of
        Some x \<Rightarrow> Inl x
      | None \<Rightarrow>
          (case user_consents w user_id of
             None \<Rightarrow> Inr None
           | Some stored \<Rightarrow> Inr (Some (to_dict stored))))"

text \<open>\<^verbatim>\<open>doc_ref.set(data)\<close> without \<^verbatim>\<open>merge\<close>: raises and writes nothing, or replaces the
  document.\<close>

definition doc_set :: "env \<Rightarrow> string \<Rightarrow> doc \<Rightarrow> world \<Rightarrow> (exn + unit) \<times> world" where
  "doc_set e user_id data w =
     (case set_raises e of
        Some x \<Rightarrow> (Inl x, w)
      | None \<Rightarrow> (Inr (), w\<lparr>user_consents := (user_consents w)(user_id \<mapsto> data)\<rparr>))"

text \<open>\<^verbatim>\<open>audit_ref.set(entry)\<close> on a fresh document of the audit collection.\<close>

definition audit_set :: "env \<Rightarrow> audit_entry \<Rightarrow> world \<Rightarrow> (exn + unit) \<times> world" where
  "audit_set e entry w =
     (case audit_raises e of
        Some x \<Rightarrow> (Inl x, w)
      | None \<Rightarrow> (Inr (), w\<lparr>consent_audit_logs := consent_audit_logs w @ [entry]\<rparr>))"

text \<open>A statement followed by \<^verbatim>\<open>return b\<close>: an exception of the statement wins.\<close>

definition returning :: "'b \<Rightarrow> (exn + 'a) \<times> world \<Rightarrow> (exn + 'b) \<times> world" where
  "returning b r = (case r of (Inl x, w) \<Rightarrow> (Inl x, w) | (Inr u, w) \<Rightarrow> (Inr b, w))"

section \<open>The audit log\<close>

text \<open>\<^verbatim>\<open>_log_audit\<close> (lines 110-122): the write sits in a \<^verbatim>\<open>try\<close> whose handler
  catches every \<^verbatim>\<open>Exception\<close> and only logs it.\<close>

definition log_audit :: "env \<Rightarrow> string \<Rightarrow> string \<Rightarrow> bool \<Rightarrow> world \<Rightarrow> (exn + unit) \<times> world" where
  "log_audit e user_id action success w =
     (case audit_set e
             \<lparr>au_user_id = user_id, au_timestamp = utcnow_audit e, au_action = action,
              au_success = success, au_service = ''consent_agent''\<rparr> w of
        (Inl x, w1) \<Rightarrow> (Inr (), logging_error (''Audit logging failed: '' @ str_exn x) w1)
      | (Inr u, w1) \<Rightarrow> (Inr (), w1))"

section \<open>Consent verification\<close>

text \<open>The global flag is the field \<^verbatim>\<open>data_processing\<close> (line 49); the flag of a data
  type is the field \<^verbatim>\<open>{data_type}_consent\<close> (lines 54-55); the expiry test is
  \<^verbatim>\<open>expiry_date and expiry_date < datetime.utcnow()\<close> (lines 60-61).\<close>

definition global_flag :: "doc \<Rightarrow> bool" where
  "global_flag consent_data = truthy (dict_get consent_data ''data_processing'' (VBool False))"

definition type_denied :: "doc \<Rightarrow> string \<Rightarrow> bool" where
  "type_denied consent_data data_type =
     (case consent_data (data_type @ ''_consent'') of
        None \<Rightarrow> False
      | Some v \<Rightarrow> \<not> truthy v)"

definition expired :: "env \<Rightarrow> doc \<Rightarrow> exn + bool" where
  "expired e consent_data =
     (let expiry_date = dict_get consent_data ''expiry_date'' VNone
      in if truthy expiry_date then lt_datetime expiry_date (utcnow_check e) else Inr False)"

text \<open>The body of the \<^verbatim>\<open>try\<close> of \<^verbatim>\<open>verify_consent\<close> (lines 39-66).\<close>

definition verify_try :: "env \<Rightarrow> string \<Rightarrow> string \<Rightarrow> world \<Rightarrow> (exn + bool) \<times> world" where
  "verify_try e user_id data_type w =
     (case doc_get e user_id w of
        Inl x \<Rightarrow> (Inl x, w)
      | Inr None \<Rightarrow>
          returning False (log_audit e user_id ''No consent document found'' False w)
      | Inr (Some consent_data) \<Rightarrow>
          if \<not> global_flag consent_data then
            returning False
              (log_audit e user_id ''Global data processing consent missing'' False w)
          else if type_denied consent_data data_type then
            returning False
              (log_audit e user_id (''Specific consent denied for '' @ data_type) False w)
          else
            (case expired e consent_data of
               Inl x \<Rightarrow> (Inl x, w)
             | Inr True \<Rightarrow> returning False (log_audit e user_id ''Consent expired'' False w)
             | Inr False \<Rightarrow>
                 returning True
                   (log_audit e user_id (''Valid consent for '' @ data_type) True w)))"

text \<open>\<^verbatim>\<open>verify_consent\<close> (lines 27-70): the handler catches \<^verbatim>\<open>GoogleAPICallError\<close>
  only, logs it and returns \<^verbatim>\<open>False\<close>; any other exception leaves the method.\<close>

definition verify_consent :: "env \<Rightarrow> string \<Rightarrow> string \<Rightarrow> world \<Rightarrow> (exn + bool) \<times> world" where
  "verify_consent e user_id data_type w =
     (case verify_try e user_id data_type w of
        (Inl (GoogleAPICallError m), w1) \<Rightarrow>
          (Inr False,
           logging_error (''Consent verification failed: '' @ str_exn (GoogleAPICallError m)) w1)
      | (Inl x, w1) \<Rightarrow> (Inl x, w1)
      | (Inr b, w1) \<Rightarrow> (Inr b, w1))"

section \<open>Consent registration\<close>

text \<open>The loop of lines 96-98: the first required consent that is not a key of
  \<^verbatim>\<open>consents\<close> raises \<^verbatim>\<open>ValueError\<close>.\<close>

fun validate_required :: "string list \<Rightarrow> doc \<Rightarrow> exn + unit" where
  "validate_required [] consents = Inr ()"
| "validate_required (consent # rest) consents =
     (if consents consent = None
      then Inl (ValueError (''Missing required consent: '' @ consent))
      else validate_required rest consents)"

text \<open>The dict display of lines 88-93, given the values of its two datetime
  expressions: three computed fields, both datetimes naive, then \<^verbatim>\<open>**consents\<close>, whose
  keys win over the fields before them.\<close>

definition consent_document :: "string \<Rightarrow> int \<Rightarrow> int \<Rightarrow> doc \<Rightarrow> doc" where
  "consent_document user_id timestamp expiry_date consents =
     [''user_id'' \<mapsto> VStr user_id,
      ''timestamp'' \<mapsto> VTime Naive timestamp,
      ''expiry_date'' \<mapsto> VTime Naive expiry_date] ++ consents"

text \<open>The body of the \<^verbatim>\<open>try\<close> of \<^verbatim>\<open>register_consent\<close> (lines 85-103): the document
  reference, the dict display with its sum of line 91, the validation loop, the write
  and the audit entry, each of which may raise.\<close>

definition register_try :: "config \<Rightarrow> env \<Rightarrow> string \<Rightarrow> doc \<Rightarrow> world \<Rightarrow> (exn + bool) \<times> world" where
  "register_try cfg e user_id consents w =
     (case ref_raises e of
        Some x \<Rightarrow> (Inl x, w)
      | None \<Rightarrow>
          (case datetime_add (utcnow_expiry e) (default_expiry cfg) of
             Inl x \<Rightarrow> (Inl x, w)
           | Inr expiry_date \<Rightarrow>
               (let consent_data =
                      consent_document user_id (utcnow_stamp e) expiry_date consents
                in case validate_required (required_consents cfg) consents of
                     Inl x \<Rightarrow> (Inl x, w)
                   | Inr u \<Rightarrow>
                       (case doc_set e user_id consent_data w of
                          (Inl x, w1) \<Rightarrow> (Inl x, w1)
                        | (Inr u1, w1) \<Rightarrow>
                            returning True
                              (log_audit e user_id ''New consent registered'' True w1)))))"

text \<open>\<^verbatim>\<open>register_consent\<close> (lines 72-108): the handler catches every \<^verbatim>\<open>Exception\<close>,
  logs it, audits the failure and returns \<^verbatim>\<open>False\<close>.\<close>

definition register_consent :: "config \<Rightarrow> env \<Rightarrow> string \<Rightarrow> doc \<Rightarrow> world \<Rightarrow> (exn + bool) \<times> world" where
  "register_consent cfg e user_id consents w =
     (case register_try cfg e user_id consents w of
        (Inl x, w1) \<Rightarrow>
          returning False
            (log_audit e user_id (''Consent registration failed: '' @ str_exn x) False
               (logging_error (''Consent registration failed: '' @ str_exn x) w1))
      | (Inr b, w1) \<Rightarrow> (Inr b, w1))"

section \<open>The violation responder\<close>

text \<open>\<^verbatim>\<open>str\<close> of the result of \<^verbatim>\<open>os.getenv\<close> inside an f-string.\<close>

definition getenv_str :: "string option \<Rightarrow> string" where
  "getenv_str v = (case v of None \<Rightarrow> ''None'' | Some s \<Rightarrow> s)"

definition block_request :: "config \<Rightarrow> string \<Rightarrow> request" where
  "block_request cfg user_id =
     \<lparr>url = getenv_str (data_detective_service_url cfg) @ ''/block-processing'',
      json = [(''user_id'', user_id)]\<rparr>"

definition redact_request :: "config \<Rightarrow> string \<Rightarrow> string \<Rightarrow> request" where
  "redact_request cfg user_id data_type =
     \<lparr>url = getenv_str (dlp_service_url cfg) @ ''/redact-data'',
      json = [(''user_id'', user_id), (''data_type'', data_type)]\<rparr>"

text \<open>\<^verbatim>\<open>requests.post\<close>: the request is handed to the HTTP library, which either
  returns a response or raises (connection error, timeout, invalid URL).\<close>

definition requests_post :: "exn option \<Rightarrow> request \<Rightarrow> world \<Rightarrow> (exn + unit) \<times> world" where
  "requests_post outcome req w =
     (case outcome of
        Some x \<Rightarrow> (Inl x, w\<lparr>posted := posted w @ [req]\<rparr>)
      | None \<Rightarrow> (Inr (), w\<lparr>posted := posted w @ [req]\<rparr>))"

definition redactable :: "string list" where
  "redactable = [''email'', ''phone_number'']"

text \<open>\<^verbatim>\<open>handle_data_violation\<close> (lines 124-139): two calls in sequence, with no
  handler around either.\<close>

definition handle_data_violation :: "config \<Rightarrow> env \<Rightarrow> string \<Rightarrow> string \<Rightarrow> world \<Rightarrow> (exn + unit) \<times> world" where
  "handle_data_violation cfg e user_id data_type w =
     (case requests_post (post_block_raises e) (block_request cfg user_id) w of
        (Inl x, w1) \<Rightarrow> (Inl x, w1)
      | (Inr u, w1) \<Rightarrow>
          if data_type \<in> set redactable
          then requests_post (post_redact_raises e) (redact_request cfg user_id data_type) w1
          else (Inr (), w1))"

section \<open>Sample configuration, environments and states\<close>

definition cfg0 :: config where
  "cfg0 = \<lparr>required_consents = [''data_processing''], default_expiry = 365,
           data_detective_service_url = Some ''http://detective'',
           dlp_service_url = Some ''http://dlp''\<rparr>"

text \<open>An environment in which every remote call goes through and the clock reads 100.\<close>

definition env_ok :: env where
  "env_ok = \<lparr>get_raises = None, ref_raises = None, set_raises = None, audit_raises = None,
             post_block_raises = None, post_redact_raises = None,
             utcnow_check = 100, utcnow_stamp = 100, utcnow_expiry = 100, utcnow_audit = 100\<rparr>"

definition world0 :: world where
  "world0 = \<lparr>user_consents = Map.empty, consent_audit_logs = [], error_log = [], posted = []\<rparr>"

text \<open>The field of a user's stored document (\<open>None\<close>: no document, or no such field).\<close>

definition stored_field :: "world \<Rightarrow> string \<Rightarrow> string \<Rightarrow> val option" where
  "stored_field w user_id k = (case user_consents w user_id of None \<Rightarrow> None | Some d \<Rightarrow> d k)"

definition doc_global_off :: doc where
  "doc_global_off = [''data_processing'' \<mapsto> VBool False, ''email_consent'' \<mapsto> VBool True,
                     ''expiry_date'' \<mapsto> VTime Naive 200]"

definition doc_email_off :: doc where
  "doc_email_off = [''data_processing'' \<mapsto> VBool True, ''email_consent'' \<mapsto> VBool False,
                    ''expiry_date'' \<mapsto> VTime Naive 200]"

definition doc_lapsed :: doc where
  "doc_lapsed = [''data_processing'' \<mapsto> VBool True, ''email_consent'' \<mapsto> VBool True,
                 ''expiry_date'' \<mapsto> VTime Naive 50]"

text \<open>A document without an expiry date.\<close>

definition doc_open :: doc where
  "doc_open = [''data_processing'' \<mapsto> VBool True]"

definition doc_plain :: doc where
  "doc_plain = [''data_processing'' \<mapsto> VBool True, ''expiry_date'' \<mapsto> VTime Naive 200]"

definition world_of :: "doc \<Rightarrow> world" where
  "world_of d = world0\<lparr>user_consents := [''u1'' \<mapsto> d]\<rparr>"

definition audit_actions :: "world \<Rightarrow> string list" where
  "audit_actions w = map au_action (consent_audit_logs w)"

text \<open>The lookup of the consent document fails with a \<^verbatim>\<open>GoogleAPICallError\<close>.\<close>

definition env_store_down :: env where
  "env_store_down = env_ok\<lparr>get_raises := Some (GoogleAPICallError ''503 unavailable'')\<rparr>"

definition doc_boundary :: doc where
  "doc_boundary = [''data_processing'' \<mapsto> VBool True, ''email_consent'' \<mapsto> VBool True,
                   ''expiry_date'' \<mapsto> VTime Naive 100]"

text \<open>\<^verbatim>\<open>isinstance(x, GoogleAPICallError)\<close>, the test of the handler of
  \<^verbatim>\<open>verify_consent\<close>.\<close>

fun is_google_api_call_error :: "exn \<Rightarrow> bool" where
  "is_google_api_call_error (GoogleAPICallError m) = True"
| "is_google_api_call_error (ValueError m) = False"
| "is_google_api_call_error (TypeError m) = False"
| "is_google_api_call_error (OverflowError m) = False"
| "is_google_api_call_error (OtherException m) = False"

text \<open>The invariant of a consent record: both dates are datetimes and the expiry date
  is not earlier than the timestamp of the registration.\<close>

definition expiry_not_before_timestamp :: "doc \<Rightarrow> bool" where
  "expiry_not_before_timestamp d =
     (case d ''timestamp'' of
        Some (VTime z created) \<Rightarrow>
          (case d ''expiry_date'' of
             Some (VTime z' expires) \<Rightarrow> created \<le> expires
           | _ \<Rightarrow> False)
      | _ \<Rightarrow> False)"

text \<open>A configuration whose default validity is beyond the last datetime, and a user
  identifier that the client rejects as a document path.\<close>

definition cfg_beyond :: config where
  "cfg_beyond = cfg0\<lparr>default_expiry := datetime_max\<rparr>"

definition env_bad_path :: env where
  "env_bad_path =
     env_ok\<lparr>ref_raises :=
              Some (ValueError ''A document must have an even number of path elements'')\<rparr>"

text \<open>Environments in which the audit write, or the first HTTP call, raises.\<close>

definition env_audit_down :: env where
  "env_audit_down = env_ok\<lparr>audit_raises := Some (OtherException ''audit sink unreachable'')\<rparr>"

definition env_block_down :: env where
  "env_block_down = env_ok\<lparr>post_block_raises := Some (OtherException ''connection refused'')\<rparr>"

text \<open>Consent mappings handed to \<^verbatim>\<open>register_consent\<close>.\<close>

definition consents_a :: doc where
  "consents_a = [''data_processing'' \<mapsto> VBool True, ''email_consent'' \<mapsto> VBool False]"

definition consents_b :: doc where
  "consents_b = [''data_processing'' \<mapsto> VBool True, ''phone_number_consent'' \<mapsto> VBool True]"

definition consents_backdated :: doc where
  "consents_backdated = [''data_processing'' \<mapsto> VBool True, ''expiry_date'' \<mapsto> VTime Naive 0]"

definition consents_forged :: doc where
  "consents_forged = [''data_processing'' \<mapsto> VBool True, ''user_id'' \<mapsto> VStr ''u2'',
                      ''expiry_date'' \<mapsto> VTime Naive 10]"

section \<open>Basic facts about the audit log\<close>

lemma log_audit_fst: "fst (log_audit e u a s w) = Inr ()"
  by (simp add: log_audit_def audit_set_def split: option.splits)

lemma log_audit_snd: "snd (log_audit e u a s w) =
   (case audit_raises e of
      None \<Rightarrow> w\<lparr>consent_audit_logs := consent_audit_logs w @
                 [\<lparr>au_user_id = u, au_timestamp = utcnow_audit e, au_action = a,
                   au_success = s, au_service = ''consent_agent''\<rparr>]\<rparr>
    | Some x \<Rightarrow> logging_error (''Audit logging failed: '' @ str_exn x) w)"
  by (simp add: log_audit_def audit_set_def split: option.splits)

lemma returning_log_audit:
  "returning b (log_audit e u a s w) = (Inr b, snd (log_audit e u a s w))"
  by (simp add: returning_def log_audit_def audit_set_def split: option.splits)

section \<open>Basic facts about documents read back\<close>

lemma truthy_read_back: "truthy (read_back v) = truthy v"
  by (cases v) simp_all

lemma global_flag_to_dict: "global_flag (to_dict d) = global_flag d"
  by (simp add: global_flag_def dict_get_def to_dict_def truthy_read_back
      split: option.splits)

lemma type_denied_to_dict: "type_denied (to_dict d) dt = type_denied d dt"
  by (simp add: type_denied_def to_dict_def truthy_read_back split: option.splits)

lemma dict_get_to_dict: "dict_get (to_dict d) k VNone = read_back (dict_get d k VNone)"
  by (simp add: dict_get_def to_dict_def split: option.splits)

text \<open>The comparison of line 61 never succeeds on a value read back from the store.\<close>

lemma lt_datetime_read_back:
  "truthy v \<Longrightarrow> \<exists>m. lt_datetime (read_back v) now = Inl (TypeError m)"
  by (cases v) simp_all

lemma expired_to_dict:
  "\<not> truthy (dict_get d ''expiry_date'' VNone) \<Longrightarrow> expired e (to_dict d) = Inr False"
  "truthy (dict_get d ''expiry_date'' VNone) \<Longrightarrow> \<exists>m. expired e (to_dict d) = Inl (TypeError m)"
  by (simp_all add: expired_def dict_get_to_dict truthy_read_back lt_datetime_read_back)

lemma expired_datetime:
  assumes "d ''expiry_date'' = Some (VTime z t)"
  shows "expired e (to_dict d) =
    Inl (TypeError ''can not compare offset-naive and offset-aware datetimes'')"
  using assms by (simp add: expired_def dict_get_def to_dict_def)

lemma verify_consent_found:
  assumes "get_raises e = None" "user_consents w uid = Some d" "global_flag d"
    "\<not> type_denied d dt"
  shows "verify_consent e uid dt w =
     (case expired e (to_dict d) of
        Inl x \<Rightarrow>
          if is_google_api_call_error x
          then (Inr False, logging_error (''Consent verification failed: '' @ str_exn x) w)
          else (Inl x, w)
      | Inr b \<Rightarrow>
          (Inr (\<not> b), snd (log_audit e uid (if b then ''Consent expired''
                                             else ''Valid consent for '' @ dt) (\<not> b) w)))"
proof (cases "expired e (to_dict d)")
  case (Inl x)
  then show ?thesis
    using assms
    by (cases x)
       (simp_all add: verify_consent_def verify_try_def doc_get_def global_flag_to_dict
          type_denied_to_dict)
next
  case (Inr b)
  then show ?thesis
    using assms
    by (cases b)
       (simp_all add: verify_consent_def verify_try_def doc_get_def global_flag_to_dict
          type_denied_to_dict returning_log_audit)
qed

lemma verify_consent_lookup_raises:
  assumes "get_raises e = Some x"
  shows "verify_consent e uid dt w =
     (if is_google_api_call_error x
      then (Inr False, logging_error (''Consent verification failed: '' @ str_exn x) w)
      else (Inl x, w))"
  using assms by (cases x) (simp_all add: verify_consent_def verify_try_def doc_get_def)

section \<open>The order of the verification rules\<close>

text \<open>
  Claim C1: \<^verbatim>\<open>verify_consent\<close> applies the rules no document, global flag, flag of the
  data type, expiry in this order, stops at the first that fails, and otherwise allows.
  The reason of a decision is the action text handed to \<^verbatim>\<open>_log_audit\<close>. When the
  lookup goes through, the first three rules do as the claim says: no document gives
  \<open>False\<close> with "No consent document found"; otherwise a falsy or absent global flag
  \<^verbatim>\<open>data_processing\<close> gives \<open>False\<close> with "Global data processing consent missing",
  whatever the flag of the data type is; otherwise a flag of the data type that is
  present and falsy gives \<open>False\<close> with "Specific consent denied for ...". A document
  that passes them and has no expiry date (or a falsy one) is allowed with "Valid
  consent for ...", also when the data type has no flag of its own. The expiry rule
  itself never decides: for a document that passes the first three rules and has an
  expiry date, the comparison of line 61 raises \<^verbatim>\<open>TypeError\<close>, which the handler of
  line 68 does not catch, so the call ends with the exception, neither "Consent
  expired" nor "Valid consent for ...", and with nothing written.
\<close>

theorem verify_consent_rule_order:
  assumes "get_raises e = None"
  shows "(user_consents w uid = None \<longrightarrow>
            verify_consent e uid dt w =
              (Inr False, snd (log_audit e uid ''No consent document found'' False w)))
       \<and> (user_consents w uid = Some d \<and> \<not> global_flag d \<longrightarrow>
            verify_consent e uid dt w =
              (Inr False,
               snd (log_audit e uid ''Global data processing consent missing'' False w)))
       \<and> (user_consents w uid = Some d \<and> global_flag d \<and> type_denied d dt \<longrightarrow>
            verify_consent e uid dt w =
              (Inr False,
               snd (log_audit e uid (''Specific consent denied for '' @ dt) False w)))
       \<and> (user_consents w uid = Some d \<and> global_flag d \<and> \<not> type_denied d dt
            \<and> \<not> truthy (dict_get d ''expiry_date'' VNone) \<longrightarrow>
            verify_consent e uid dt w =
              (Inr True, snd (log_audit e uid (''Valid consent for '' @ dt) True w)))
       \<and> (user_consents w uid = Some d \<and> global_flag d \<and> \<not> type_denied d dt
            \<and> truthy (dict_get d ''expiry_date'' VNone) \<longrightarrow>
            (\<exists>m. verify_consent e uid dt w = (Inl (TypeError m), w)))"
proof -
  have try_eq: "verify_consent e uid dt w = (Inr b, w')"
    if "verify_try e uid dt w = (Inr b, w')" for b w'
    using that by (simp add: verify_consent_def)
  have none: "verify_try e uid dt w =
      (Inr False, snd (log_audit e uid ''No consent document found'' False w))"
    if "user_consents w uid = None"
    using assms that by (simp add: verify_try_def doc_get_def returning_log_audit)
  have glob: "verify_try e uid dt w =
      (Inr False, snd (log_audit e uid ''Global data processing consent missing'' False w))"
    if "user_consents w uid = Some d" "\<not> global_flag d"
    using assms that
    by (simp add: verify_try_def doc_get_def returning_log_audit global_flag_to_dict)
  have cat: "verify_try e uid dt w =
      (Inr False, snd (log_audit e uid (''Specific consent denied for '' @ dt) False w))"
    if "user_consents w uid = Some d" "global_flag d" "type_denied d dt"
    using assms that
    by (simp add: verify_try_def doc_get_def returning_log_audit global_flag_to_dict
        type_denied_to_dict)
  have valid: "verify_consent e uid dt w =
      (Inr True, snd (log_audit e uid (''Valid consent for '' @ dt) True w))"
    if "user_consents w uid = Some d" "global_flag d" "\<not> type_denied d dt"
       "\<not> truthy (dict_get d ''expiry_date'' VNone)"
    using verify_consent_found [OF assms that(1-3)] expired_to_dict(1) [OF that(4), of e]
    by simp
  have raises: "\<exists>m. verify_consent e uid dt w = (Inl (TypeError m), w)"
    if h: "user_consents w uid = Some d" "global_flag d" "\<not> type_denied d dt"
       "truthy (dict_get d ''expiry_date'' VNone)"
  proof -
    obtain m where "expired e (to_dict d) = Inl (TypeError m)"
      using expired_to_dict(2) [OF h(4), of e] by blast
    then have "verify_consent e uid dt w = (Inl (TypeError m), w)"
      using verify_consent_found [OF assms h(1-3)] by simp
    then show ?thesis by blast
  qed
  show ?thesis
    using try_eq [OF none] try_eq [OF glob] try_eq [OF cat] valid raises by blast
qed

theorem verify_consent_rule_order_witness:
  "get_raises env_ok = None
   \<and> user_consents world0 ''u1'' = None
   \<and> fst (verify_consent env_ok ''u1'' ''email'' world0) = Inr False
   \<and> audit_actions (snd (verify_consent env_ok ''u1'' ''email'' world0))
       = [''No consent document found'']
   \<and> user_consents (world_of doc_global_off) ''u1'' = Some doc_global_off
   \<and> \<not> global_flag doc_global_off
   \<and> doc_global_off ''email_consent'' = Some (VBool True)
   \<and> fst (verify_consent env_ok ''u1'' ''email'' (world_of doc_global_off)) = Inr False
   \<and> audit_actions (snd (verify_consent env_ok ''u1'' ''email'' (world_of doc_global_off)))
       = [''Global data processing consent missing'']
   \<and> global_flag doc_email_off \<and> type_denied doc_email_off ''email''
   \<and> fst (verify_consent env_ok ''u1'' ''email'' (world_of doc_email_off)) = Inr False
   \<and> audit_actions (snd (verify_consent env_ok ''u1'' ''email'' (world_of doc_email_off)))
       = [''Specific consent denied for email'']
   \<and> global_flag doc_open \<and> doc_open ''email_consent'' = None
   \<and> doc_open ''expiry_date'' = None
   \<and> fst (verify_consent env_ok ''u1'' ''email'' (world_of doc_open)) = Inr True
   \<and> audit_actions (snd (verify_consent env_ok ''u1'' ''email'' (world_of doc_open)))
       = [''Valid consent for email'']
   \<and> global_flag doc_plain \<and> doc_plain ''email_consent'' = None
   \<and> doc_plain ''expiry_date'' = Some (VTime Naive 200) \<and> utcnow_check env_ok = 100
   \<and> verify_consent env_ok ''u1'' ''email'' (world_of doc_plain)
       = (Inl (TypeError ''can not compare offset-naive and offset-aware datetimes''),
          world_of doc_plain)"
proof -
  have env: "get_raises env_ok = None" "audit_raises env_ok = None" "utcnow_check env_ok = 100"
    by (simp_all add: env_ok_def)
  have flags:
    "\<not> global_flag doc_global_off" "doc_global_off ''email_consent'' = Some (VBool True)"
    "global_flag doc_email_off" "type_denied doc_email_off ''email''"
    "global_flag doc_open" "doc_open ''email_consent'' = None"
    "\<not> type_denied doc_open ''email''" "doc_open ''expiry_date'' = None"
    "\<not> truthy (dict_get doc_open ''expiry_date'' VNone)"
    "global_flag doc_plain" "doc_plain ''email_consent'' = None"
    "\<not> type_denied doc_plain ''email''"
    "doc_plain ''expiry_date'' = Some (VTime Naive 200)"
    "truthy (dict_get doc_plain ''expiry_date'' VNone)"
    by (simp_all add: global_flag_def type_denied_def dict_get_def doc_global_off_def
        doc_email_off_def doc_open_def doc_plain_def)
  have stored: "user_consents world0 ''u1'' = None" "user_consents (world_of d) ''u1'' = Some d" for d
    by (simp_all add: world_of_def world0_def)
  note rules = verify_consent_rule_order [OF env(1)]
  have r1: "verify_consent env_ok ''u1'' ''email'' world0 =
      (Inr False, snd (log_audit env_ok ''u1'' ''No consent document found'' False world0))"
    using rules [where w = world0 and uid = "''u1''" and d = doc_plain and dt = "''email''"]
      stored by simp
  have r2: "verify_consent env_ok ''u1'' ''email'' (world_of doc_global_off) =
      (Inr False, snd (log_audit env_ok ''u1'' ''Global data processing consent missing'' False
                         (world_of doc_global_off)))"
    using rules [where w = "world_of doc_global_off" and uid = "''u1''" and d = doc_global_off
                   and dt = "''email''"] stored flags
    by simp
  have r3: "verify_consent env_ok ''u1'' ''email'' (world_of doc_email_off) =
      (Inr False, snd (log_audit env_ok ''u1'' (''Specific consent denied for '' @ ''email'') False
                         (world_of doc_email_off)))"
    using rules [where w = "world_of doc_email_off" and uid = "''u1''" and d = doc_email_off
                   and dt = "''email''"] stored flags
    by simp
  have r4: "verify_consent env_ok ''u1'' ''email'' (world_of doc_open) =
      (Inr True, snd (log_audit env_ok ''u1'' (''Valid consent for '' @ ''email'') True
                        (world_of doc_open)))"
    using rules [where w = "world_of doc_open" and uid = "''u1''" and d = doc_open
                   and dt = "''email''"] stored flags
    by simp
  have "\<exists>m. verify_consent env_ok ''u1'' ''email'' (world_of doc_plain)
          = (Inl (TypeError m), world_of doc_plain)"
    using rules [where w = "world_of doc_plain" and uid = "''u1''" and d = doc_plain
                   and dt = "''email''"] stored flags
    by simp
  then obtain m where m: "verify_consent env_ok ''u1'' ''email'' (world_of doc_plain)
          = (Inl (TypeError m), world_of doc_plain)"
    by blast
  have "verify_consent env_ok ''u1'' ''email'' (world_of doc_plain)
          = (Inl (TypeError ''can not compare offset-naive and offset-aware datetimes''),
             world_of doc_plain)"
    using verify_consent_found [OF env(1) stored(2) flags(10) flags(12)]
      expired_datetime [where d = doc_plain and e = env_ok, OF flags(13)]
    by simp
  then have r5: "verify_consent env_ok ''u1'' ''email'' (world_of doc_plain)
       = (Inl (TypeError ''can not compare offset-naive and offset-aware datetimes''),
          world_of doc_plain)"
    using m by simp
  show ?thesis
    unfolding r1 r2 r3 r4 r5
    by (simp add: env flags stored log_audit_snd audit_actions_def world_of_def world0_def)
qed

section \<open>A failing lookup\<close>

text \<open>
  Claim C2, as the specification states it: a lookup that fails with an infrastructure
  error surfaces an error to the caller, distinct from a denial. It does not: with the
  lookup raising \<^verbatim>\<open>GoogleAPICallError\<close>, \<^verbatim>\<open>verify_consent\<close> returns \<open>False\<close>, the very
  value it returns for a user without a document.
\<close>

theorem verify_consent_store_failure_counterexample:
  "get_raises env_store_down = Some (GoogleAPICallError ''503 unavailable'')
   \<and> fst (verify_consent env_store_down ''u1'' ''email'' (world_of doc_plain)) = Inr False
   \<and> fst (verify_consent env_store_down ''u1'' ''email'' (world_of doc_plain))
       = fst (verify_consent env_ok ''u1'' ''email'' world0)"
  by (simp add: verify_consent_def verify_try_def doc_get_def env_store_down_def env_ok_def
      world0_def world_of_def returning_log_audit)

text \<open>
  Claim C2, amended. When the lookup raises a \<^verbatim>\<open>GoogleAPICallError\<close>,
  \<^verbatim>\<open>verify_consent\<close> returns \<open>False\<close>, the value of a denial, and writes the line
  "Consent verification failed: ..." to the error log; an exception of any other class
  leaves \<^verbatim>\<open>verify_consent\<close> and reaches the caller as it is.
\<close>

theorem verify_consent_store_failure:
  assumes "get_raises e = Some x"
  shows "(is_google_api_call_error x \<longrightarrow>
            fst (verify_consent e uid dt w) = Inr False
            \<and> error_log (snd (verify_consent e uid dt w))
                = error_log w @ [''Consent verification failed: '' @ str_exn x])
       \<and> (\<not> is_google_api_call_error x \<longrightarrow> fst (verify_consent e uid dt w) = Inl x)"
  by (simp add: verify_consent_lookup_raises [OF assms] logging_error_def)

theorem verify_consent_store_failure_witness:
  "get_raises env_store_down = Some (GoogleAPICallError ''503 unavailable'')
   \<and> is_google_api_call_error (GoogleAPICallError ''503 unavailable'')
   \<and> fst (verify_consent env_store_down ''u1'' ''email'' (world_of doc_plain)) = Inr False
   \<and> error_log (snd (verify_consent env_store_down ''u1'' ''email'' (world_of doc_plain)))
       = [''Consent verification failed: 503 unavailable'']
   \<and> get_raises (env_ok\<lparr>get_raises := Some (OtherException ''deadline exceeded'')\<rparr>)
       = Some (OtherException ''deadline exceeded'')
   \<and> \<not> is_google_api_call_error (OtherException ''deadline exceeded'')
   \<and> fst (verify_consent (env_ok\<lparr>get_raises := Some (OtherException ''deadline exceeded'')\<rparr>)
             ''u1'' ''email'' (world_of doc_plain)) = Inl (OtherException ''deadline exceeded'')"
proof -
  have g1: "get_raises env_store_down = Some (GoogleAPICallError ''503 unavailable'')"
    by (simp add: env_store_down_def)
  have g2: "get_raises (env_ok\<lparr>get_raises := Some (OtherException ''deadline exceeded'')\<rparr>)
       = Some (OtherException ''deadline exceeded'')"
    by simp
  show ?thesis
    using verify_consent_store_failure [OF g1, of "''u1''" "''email''" "world_of doc_plain"]
      verify_consent_store_failure [OF g2, of "''u1''" "''email''" "world_of doc_plain"]
    by (simp add: g1 world_of_def world0_def)
qed

section \<open>The expiry rule\<close>

text \<open>
  Claim C3: for a record whose expiry date is set and every time \<open>now\<close> at or after it,
  the decision is \<open>False\<close> with "Consent expired", also when the global flag and the
  flag of the data type are true. Lines 60-63 set out to do so, but the comparison of
  line 61 puts the stored expiry date, which the store hands back timezone-aware, against
  the naive \<^verbatim>\<open>datetime.utcnow()\<close>: for every document that reaches the expiry rule with
  an expiry date, and for every \<open>now\<close>, the call ends with \<^verbatim>\<open>TypeError\<close>, no decision and
  nothing written.
\<close>

theorem verify_consent_expiry_raises:
  assumes "get_raises e = None" "user_consents w uid = Some d" "global_flag d"
    "\<not> type_denied d dt" "d ''expiry_date'' = Some (VTime z t)"
  shows "verify_consent e uid dt w =
     (Inl (TypeError ''can not compare offset-naive and offset-aware datetimes''), w)"
proof -
  have "expired e (to_dict d) =
      Inl (TypeError ''can not compare offset-naive and offset-aware datetimes'')"
    using assms(5) by (rule expired_datetime)
  with verify_consent_found [OF assms(1-4)] show ?thesis by simp
qed

theorem verify_consent_expiry_raises_witness:
  "get_raises env_ok = None \<and> utcnow_check env_ok = 100
   \<and> user_consents (world_of doc_lapsed) ''u1'' = Some doc_lapsed
   \<and> global_flag doc_lapsed \<and> \<not> type_denied doc_lapsed ''email''
   \<and> doc_lapsed ''expiry_date'' = Some (VTime Naive 50)
   \<and> fst (verify_consent env_ok ''u1'' ''email'' (world_of doc_lapsed))
       = Inl (TypeError ''can not compare offset-naive and offset-aware datetimes'')
   \<and> audit_actions (snd (verify_consent env_ok ''u1'' ''email'' (world_of doc_lapsed))) = []
   \<and> user_consents (world_of doc_boundary) ''u1'' = Some doc_boundary
   \<and> global_flag doc_boundary \<and> \<not> type_denied doc_boundary ''email''
   \<and> doc_boundary ''expiry_date'' = Some (VTime Naive 100)
   \<and> fst (verify_consent env_ok ''u1'' ''email'' (world_of doc_boundary))
       = Inl (TypeError ''can not compare offset-naive and offset-aware datetimes'')
   \<and> audit_actions (snd (verify_consent env_ok ''u1'' ''email'' (world_of doc_boundary))) = []"
proof -
  have env: "get_raises env_ok = None" "utcnow_check env_ok = 100"
    by (simp_all add: env_ok_def)
  have flags:
    "global_flag doc_lapsed" "\<not> type_denied doc_lapsed ''email''"
    "doc_lapsed ''expiry_date'' = Some (VTime Naive 50)"
    "global_flag doc_boundary" "\<not> type_denied doc_boundary ''email''"
    "doc_boundary ''expiry_date'' = Some (VTime Naive 100)"
    by (simp_all add: global_flag_def type_denied_def dict_get_def doc_lapsed_def
        doc_boundary_def)
  have stored: "user_consents (world_of d) ''u1'' = Some d" for d
    by (simp add: world_of_def world0_def)
  have quiet: "audit_actions (world_of d) = []" for d
    by (simp add: audit_actions_def world_of_def world0_def)
  note a = verify_consent_expiry_raises [OF env(1) stored flags(1) flags(2), where z = Naive and t = 50]
  note b = verify_consent_expiry_raises [OF env(1) stored flags(4) flags(5), where z = Naive and t = 100]
  show ?thesis
    using a b flags by (simp add: env stored quiet)
qed

section \<open>The audit entry of a failed lookup\<close>

text \<open>On every path that returns from the \<^verbatim>\<open>try\<close> body, one entry is appended to the
  audit collection when it accepts the write.\<close>

lemma lt_datetime_raises_type_error:
  "lt_datetime v now \<noteq> Inl (GoogleAPICallError m)"
  by (cases "(v, now)" rule: lt_datetime.cases) simp_all

lemma expired_raises_type_error:
  "expired e d \<noteq> Inl (GoogleAPICallError m)"
  by (simp add: expired_def Let_def lt_datetime_raises_type_error)

lemma verify_consent_audits_once:
  assumes "get_raises e = None" "audit_raises e = None"
    "fst (verify_consent e uid dt w) = Inr b"
  shows "length (consent_audit_logs (snd (verify_consent e uid dt w)))
           = Suc (length (consent_audit_logs w))"
proof -
  have one: "length (consent_audit_logs (snd (log_audit e uid a s w)))
               = Suc (length (consent_audit_logs w))" for a s
    using assms(2) by (simp add: log_audit_snd)
  show ?thesis
    using assms(1,3) one expired_raises_type_error [of e]
    by (auto simp add: verify_consent_def verify_try_def doc_get_def returning_log_audit
        split: option.splits sum.splits if_splits bool.splits exn.splits)
qed

text \<open>
  Claim C4: every call of \<^verbatim>\<open>verify_consent\<close> emits exactly one audit entry, also when
  the lookup fails. Every \<^verbatim>\<open>return\<close> of the \<^verbatim>\<open>try\<close> body is preceded by a call of
  \<^verbatim>\<open>_log_audit\<close>, and the handler of \<^verbatim>\<open>register_consent\<close> audits the failure it
  catches; the handler of \<^verbatim>\<open>verify_consent\<close> (lines 68-70) does not. With the
  lookup raising \<^verbatim>\<open>GoogleAPICallError\<close> and the audit collection accepting writes, the
  call ends with no audit entry.
\<close>

theorem verify_consent_store_failure_not_audited:
  "get_raises env_store_down = Some (GoogleAPICallError ''503 unavailable'')
   \<and> audit_raises env_store_down = None
   \<and> consent_audit_logs (world_of doc_plain) = []
   \<and> consent_audit_logs (snd (verify_consent env_store_down ''u1'' ''email'' (world_of doc_plain)))
       = []"
  by (simp add: verify_consent_def verify_try_def doc_get_def env_store_down_def env_ok_def
      world0_def world_of_def logging_error_def)

section \<open>Basic facts about registration\<close>

lemma user_consents_logging_error [simp]:
  "user_consents (logging_error m w) = user_consents w"
  by (simp add: logging_error_def)

lemma user_consents_log_audit [simp]:
  "user_consents (snd (log_audit e u a s w)) = user_consents w"
  by (simp add: log_audit_snd split: option.splits)

lemma error_log_log_audit:
  "error_log (snd (log_audit e u a s w)) =
     (case audit_raises e of
        None \<Rightarrow> error_log w
      | Some x \<Rightarrow> error_log w @ [''Audit logging failed: '' @ str_exn x])"
  by (simp add: log_audit_snd logging_error_def split: option.splits)

lemma validate_required_ok:
  "(validate_required cs consents = Inr ()) = (set cs \<subseteq> dom consents)"
  by (induction cs) auto

lemma validate_required_missing:
  assumes "c \<in> set cs" "consents c = None"
  shows "\<exists>m\<in>set cs. consents m = None
           \<and> validate_required cs consents = Inl (ValueError (''Missing required consent: '' @ m))"
  using assms by (induction cs) auto

text \<open>The \<^verbatim>\<open>try\<close> body of \<^verbatim>\<open>register_consent\<close>, failure point by failure point.\<close>

lemma register_try_cases:
  "register_try cfg e uid consents w =
     (case ref_raises e of
        Some x \<Rightarrow> (Inl x, w)
      | None \<Rightarrow>
          (case datetime_add (utcnow_expiry e) (default_expiry cfg) of
             Inl x \<Rightarrow> (Inl x, w)
           | Inr expiry_date \<Rightarrow>
               (case validate_required (required_consents cfg) consents of
                  Inl x \<Rightarrow> (Inl x, w)
                | Inr u \<Rightarrow>
                    (case set_raises e of
                       Some x \<Rightarrow> (Inl x, w)
                     | None \<Rightarrow>
                         (Inr True,
                          snd (log_audit e uid ''New consent registered'' True
                                 (w\<lparr>user_consents :=
                                      (user_consents w)
                                        (uid \<mapsto> consent_document uid (utcnow_stamp e)
                                                  expiry_date consents)\<rparr>)))))))"
  by (simp add: register_try_def doc_set_def returning_log_audit
      split: sum.splits option.splits)

lemma register_consent_failed:
  assumes "register_try cfg e uid consents w = (Inl x, w1)"
  shows "register_consent cfg e uid consents w =
     (Inr False, snd (log_audit e uid (''Consent registration failed: '' @ str_exn x) False
                        (logging_error (''Consent registration failed: '' @ str_exn x) w1)))"
  using assms by (simp add: register_consent_def returning_log_audit)

lemma register_try_missing:
  assumes "c \<in> set (required_consents cfg)" "consents c = None"
  shows "\<exists>x. register_try cfg e uid consents w = (Inl x, w)"
proof -
  obtain m where "validate_required (required_consents cfg) consents
       = Inl (ValueError (''Missing required consent: '' @ m))"
    using validate_required_missing [of c "required_consents cfg" consents] assms by blast
  then show ?thesis
    by (simp add: register_try_cases split: option.splits sum.splits)
qed

lemma register_consent_stored:
  assumes "set (required_consents cfg) \<subseteq> dom consents" "set_raises e = None"
    "ref_raises e = None" "representable (utcnow_expiry e + default_expiry cfg)"
  shows "register_consent cfg e uid consents w =
     (Inr True, snd (log_audit e uid ''New consent registered'' True
                       (w\<lparr>user_consents :=
                            (user_consents w)
                              (uid \<mapsto> consent_document uid (utcnow_stamp e)
                                        (utcnow_expiry e + default_expiry cfg) consents)\<rparr>)))"
proof -
  have "validate_required (required_consents cfg) consents = Inr ()"
    using assms(1) by (simp add: validate_required_ok)
  then show ?thesis
    using assms(2-4)
    by (simp add: register_consent_def register_try_cases datetime_add_def)
qed

lemma fst_verify_try:
  "fst (verify_try e uid dt w) =
     (case doc_get e uid w of
        Inl x \<Rightarrow> Inl x
      | Inr None \<Rightarrow> Inr False
      | Inr (Some d) \<Rightarrow>
          if \<not> global_flag d then Inr False
          else if type_denied d dt then Inr False
          else (case expired e d of Inl x \<Rightarrow> Inl x | Inr b \<Rightarrow> Inr (\<not> b)))"
  by (simp add: verify_try_def returning_log_audit split: sum.splits option.splits bool.splits)

lemma fst_verify_consent:
  "fst (verify_consent e uid dt w) =
     (case fst (verify_try e uid dt w) of
        Inl x \<Rightarrow> if is_google_api_call_error x then Inr False else Inl x
      | Inr b \<Rightarrow> Inr b)"
  by (cases "verify_try e uid dt w")
     (simp add: verify_consent_def split: sum.splits exn.splits)

lemma fst_verify_consent_stored:
  assumes "get_raises e = None" "user_consents w uid = Some d"
  shows "fst (verify_consent e uid dt w) =
     (if \<not> global_flag d then Inr False
      else if type_denied d dt then Inr False
      else (case expired e (to_dict d) of
              Inl x \<Rightarrow> if is_google_api_call_error x then Inr False else Inl x
            | Inr b \<Rightarrow> Inr (\<not> b)))"
  using assms
  by (simp add: fst_verify_consent fst_verify_try doc_get_def global_flag_to_dict
      type_denied_to_dict split: sum.splits)

lemma verify_consent_same_document:
  assumes "user_consents w1 uid = user_consents w2 uid"
  shows "fst (verify_consent e uid dt w1) = fst (verify_consent e uid dt w2)"
proof -
  have "doc_get e uid w1 = doc_get e uid w2"
    unfolding doc_get_def assms by (rule refl)
  then show ?thesis
    by (simp add: fst_verify_consent fst_verify_try)
qed

lemma consent_key_not_computed:
  "dt @ ''_consent'' \<noteq> ''user_id''" "dt @ ''_consent'' \<noteq> ''timestamp''"
  "dt @ ''_consent'' \<noteq> ''expiry_date''"
proof -
  show "dt @ ''_consent'' \<noteq> ''user_id''"
  proof
    assume "dt @ ''_consent'' = ''user_id''"
    then have "last (dt @ ''_consent'') = last ''user_id''" by (rule arg_cong)
    then show False by simp
  qed
  show "dt @ ''_consent'' \<noteq> ''timestamp''"
  proof
    assume "dt @ ''_consent'' = ''timestamp''"
    then have "last (dt @ ''_consent'') = last ''timestamp''" by (rule arg_cong)
    then show False by simp
  qed
  show "dt @ ''_consent'' \<noteq> ''expiry_date''"
  proof
    assume "dt @ ''_consent'' = ''expiry_date''"
    then have "last (dt @ ''_consent'') = last ''expiry_date''" by (rule arg_cong)
    then show False by simp
  qed
qed

lemma consent_document_key:
  "consent_document uid created expires consents k =
     (case consents k of
        Some v \<Rightarrow> Some v
      | None \<Rightarrow>
          if k = ''expiry_date'' then Some (VTime Naive expires)
          else if k = ''timestamp'' then Some (VTime Naive created)
          else if k = ''user_id'' then Some (VStr uid)
          else None)"
  by (simp add: consent_document_def map_add_def split: option.splits)

section \<open>Registration without a required consent\<close>

text \<open>
  Claim C5. When the consents mapping lacks one of the required consents,
  \<^verbatim>\<open>register_consent\<close> fails: it returns \<open>False\<close> and the collection of consent
  documents is left as it was. The error log and the audit action name a missing consent
  ("Consent registration failed: Missing required consent: ...") whenever the statements
  before the validation loop (the document reference of line 85, the sum of line 91) do
  not raise first. A later \<^verbatim>\<open>verify_consent\<close> for that user therefore decides as it
  would have before the call; in particular a user without a document still gets
  \<open>False\<close> with "No consent document found".
\<close>

theorem register_consent_missing_required:
  assumes "c \<in> set (required_consents cfg)" "consents c = None"
  shows "fst (register_consent cfg e uid consents w) = Inr False
       \<and> user_consents (snd (register_consent cfg e uid consents w)) = user_consents w
       \<and> (ref_raises e = None \<and> representable (utcnow_expiry e + default_expiry cfg) \<longrightarrow>
           (\<exists>m\<in>set (required_consents cfg). consents m = None
            \<and> register_consent cfg e uid consents w =
                (Inr False,
                 snd (log_audit e uid
                        (''Consent registration failed: Missing required consent: '' @ m) False
                        (logging_error
                           (''Consent registration failed: Missing required consent: '' @ m) w)))))
       \<and> fst (verify_consent e2 uid dt (snd (register_consent cfg e uid consents w)))
           = fst (verify_consent e2 uid dt w)
       \<and> (get_raises e2 = None \<and> user_consents w uid = None \<longrightarrow>
            verify_consent e2 uid dt (snd (register_consent cfg e uid consents w)) =
              (Inr False,
               snd (log_audit e2 uid ''No consent document found'' False
                      (snd (register_consent cfg e uid consents w)))))"
proof -
  let ?r = "register_consent cfg e uid consents w"
  obtain x where x: "register_try cfg e uid consents w = (Inl x, w)"
    using register_try_missing [of c cfg consents e uid w] assms by blast
  note r = register_consent_failed [OF x]
  have failed: "fst ?r = Inr False"
    by (simp add: r)
  have unchanged: "user_consents (snd ?r) = user_consents w"
    by (simp add: r)
  have named: "\<exists>m\<in>set (required_consents cfg). consents m = None \<and> ?r =
      (Inr False,
       snd (log_audit e uid (''Consent registration failed: Missing required consent: '' @ m)
              False
              (logging_error
                 (''Consent registration failed: Missing required consent: '' @ m) w)))"
    if h: "ref_raises e = None" "representable (utcnow_expiry e + default_expiry cfg)"
  proof -
    obtain m where m: "m \<in> set (required_consents cfg)" "consents m = None"
      "validate_required (required_consents cfg) consents
         = Inl (ValueError (''Missing required consent: '' @ m))"
      using validate_required_missing [of c "required_consents cfg" consents] assms by blast
    have "register_try cfg e uid consents w
            = (Inl (ValueError (''Missing required consent: '' @ m)), w)"
      using m(3) h by (simp add: register_try_cases datetime_add_def)
    from register_consent_failed [OF this] m(1,2) show ?thesis
      by auto
  qed
  have same: "fst (verify_consent e2 uid dt (snd ?r)) = fst (verify_consent e2 uid dt w)"
    by (rule verify_consent_same_document) (simp add: unchanged)
  have absent: "verify_consent e2 uid dt (snd ?r) =
      (Inr False, snd (log_audit e2 uid ''No consent document found'' False (snd ?r)))"
    if "get_raises e2 = None" "user_consents w uid = None"
    using that unchanged
    by (simp add: verify_consent_def verify_try_def doc_get_def returning_log_audit)
  show ?thesis
    using failed unchanged named same absent by blast
qed

theorem register_consent_missing_required_witness:
  "''data_processing'' \<in> set (required_consents cfg0)
   \<and> [''marketing'' \<mapsto> VBool False] ''data_processing'' = None
   \<and> ref_raises env_ok = None \<and> representable (utcnow_expiry env_ok + default_expiry cfg0)
   \<and> fst (register_consent cfg0 env_ok ''u1'' [''marketing'' \<mapsto> VBool False] world0) = Inr False
   \<and> user_consents (snd (register_consent cfg0 env_ok ''u1'' [''marketing'' \<mapsto> VBool False] world0))
       = user_consents world0
   \<and> audit_actions (snd (register_consent cfg0 env_ok ''u1'' [''marketing'' \<mapsto> VBool False] world0))
       = [''Consent registration failed: Missing required consent: data_processing'']
   \<and> get_raises env_ok = None \<and> user_consents world0 ''u1'' = None
   \<and> fst (verify_consent env_ok ''u1'' ''email''
            (snd (register_consent cfg0 env_ok ''u1'' [''marketing'' \<mapsto> VBool False] world0)))
       = Inr False
   \<and> audit_actions (snd (verify_consent env_ok ''u1'' ''email''
            (snd (register_consent cfg0 env_ok ''u1'' [''marketing'' \<mapsto> VBool False] world0))))
       = [''Consent registration failed: Missing required consent: data_processing'',
          ''No consent document found'']
   \<and> fst (register_consent cfg_beyond env_ok ''u1'' [''marketing'' \<mapsto> VBool False] world0)
       = Inr False
   \<and> user_consents
        (snd (register_consent cfg_beyond env_ok ''u1'' [''marketing'' \<mapsto> VBool False] world0))
       = user_consents world0"
proof -
  have h1: "''data_processing'' \<in> set (required_consents cfg0)"
    "''data_processing'' \<in> set (required_consents cfg_beyond)"
    by (simp_all add: cfg0_def cfg_beyond_def)
  have h2: "[''marketing'' \<mapsto> VBool False] ''data_processing'' = None"
    by simp
  have e: "get_raises env_ok = None" "audit_raises env_ok = None" "user_consents world0 ''u1'' = None"
    "ref_raises env_ok = None" "representable (utcnow_expiry env_ok + default_expiry cfg0)"
    by (simp_all add: env_ok_def world0_def cfg0_def representable_def datetime_max_def)
  let ?r = "register_consent cfg0 env_ok ''u1'' [''marketing'' \<mapsto> VBool False] world0"
  note t = register_consent_missing_required
      [where c = "''data_processing''" and cfg = cfg0
         and consents = "[''marketing'' \<mapsto> VBool False]" and e = env_ok and uid = "''u1''"
         and w = world0 and ?e2.0 = env_ok and dt = "''email''", OF h1(1) h2]
  note t2 = register_consent_missing_required
      [where c = "''data_processing''" and cfg = cfg_beyond
         and consents = "[''marketing'' \<mapsto> VBool False]" and e = env_ok and uid = "''u1''"
         and w = world0 and ?e2.0 = env_ok and dt = "''email''", OF h1(2) h2]
  have f: "fst ?r = Inr False" and u: "user_consents (snd ?r) = user_consents world0"
    using t by blast+
  have "\<exists>m\<in>set (required_consents cfg0). [''marketing'' \<mapsto> VBool False] m = None \<and> ?r =
      (Inr False,
       snd (log_audit env_ok ''u1''
              (''Consent registration failed: Missing required consent: '' @ m) False
              (logging_error
                 (''Consent registration failed: Missing required consent: '' @ m) world0)))"
    using t e by blast
  then have a: "audit_actions (snd ?r)
       = [''Consent registration failed: Missing required consent: data_processing'']"
    by (auto simp add: cfg0_def log_audit_snd e audit_actions_def logging_error_def world0_def)
  have v: "verify_consent env_ok ''u1'' ''email'' (snd ?r) =
      (Inr False, snd (log_audit env_ok ''u1'' ''No consent document found'' False (snd ?r)))"
    using t e by blast
  have va: "audit_actions (snd (verify_consent env_ok ''u1'' ''email'' (snd ?r)))
       = audit_actions (snd ?r) @ [''No consent document found'']"
    by (simp add: v log_audit_snd e audit_actions_def)
  have f2: "fst (register_consent cfg_beyond env_ok ''u1'' [''marketing'' \<mapsto> VBool False] world0)
       = Inr False"
    and u2: "user_consents
        (snd (register_consent cfg_beyond env_ok ''u1'' [''marketing'' \<mapsto> VBool False] world0))
       = user_consents world0"
    using t2 by blast+
  show ?thesis
    using h1 h2 e f u a v va f2 u2 by simp
qed

text \<open>The two failure points before the validation loop: a rejected document path and
  an expiry date beyond \<^verbatim>\<open>datetime.max\<close> both end in the handler, with nothing stored.\<close>

lemma register_consent_early_failure:
  "fst (register_consent cfg0 env_bad_path ''a/b'' consents_a world0) = Inr False
   \<and> user_consents (snd (register_consent cfg0 env_bad_path ''a/b'' consents_a world0))
       = user_consents world0
   \<and> audit_actions (snd (register_consent cfg0 env_bad_path ''a/b'' consents_a world0))
       = [''Consent registration failed: A document must have an even number of path elements'']
   \<and> fst (register_consent cfg_beyond env_ok ''u1'' consents_a world0) = Inr False
   \<and> user_consents (snd (register_consent cfg_beyond env_ok ''u1'' consents_a world0))
       = user_consents world0
   \<and> audit_actions (snd (register_consent cfg_beyond env_ok ''u1'' consents_a world0))
       = [''Consent registration failed: date value out of range'']"
proof -
  have p: "register_try cfg0 env_bad_path ''a/b'' consents_a world0
      = (Inl (ValueError ''A document must have an even number of path elements''), world0)"
    by (simp add: register_try_cases env_bad_path_def)
  have o: "register_try cfg_beyond env_ok ''u1'' consents_a world0
      = (Inl (OverflowError ''date value out of range''), world0)"
    by (simp add: register_try_cases env_ok_def cfg_beyond_def cfg0_def datetime_add_def
        representable_def)
  have a: "audit_raises env_bad_path = None" "audit_raises env_ok = None"
    by (simp_all add: env_bad_path_def env_ok_def)
  show ?thesis
    unfolding register_consent_failed [OF p] register_consent_failed [OF o]
    by (simp add: log_audit_snd a audit_actions_def logging_error_def world0_def)
qed

section \<open>Registration replaces the document\<close>

text \<open>
  Claim C6. A successful registration stores exactly the document built from the call,
  whatever document the user had before: a field of the old document that the new
  consents mapping does not carry (and that is none of the three computed fields) is
  gone, and a data type without a flag in the new mapping is not denied by its own flag,
  so its decision falls to the global flag. A registration succeeds when the document
  reference, the sum of line 91, the validation loop and the write all go through.
\<close>

theorem register_consent_replaces:
  assumes "set (required_consents cfg) \<subseteq> dom consents" "set_raises e = None"
    "ref_raises e = None" "representable (utcnow_expiry e + default_expiry cfg)"
  shows "fst (register_consent cfg e uid consents w) = Inr True
       \<and> user_consents (snd (register_consent cfg e uid consents w)) uid
           = Some (consent_document uid (utcnow_stamp e)
                     (utcnow_expiry e + default_expiry cfg) consents)
       \<and> (consents k = None \<and> k \<notin> {''user_id'', ''timestamp'', ''expiry_date''} \<longrightarrow>
            stored_field (snd (register_consent cfg e uid consents w)) uid k = None)
       \<and> (consents (dt @ ''_consent'') = None \<longrightarrow>
            \<not> type_denied (consent_document uid (utcnow_stamp e)
                              (utcnow_expiry e + default_expiry cfg) consents) dt)"
proof -
  note r = register_consent_stored [OF assms, of uid w]
  have stored: "user_consents (snd (register_consent cfg e uid consents w)) uid
           = Some (consent_document uid (utcnow_stamp e)
                     (utcnow_expiry e + default_expiry cfg) consents)"
    by (simp add: r)
  have gone: "stored_field (snd (register_consent cfg e uid consents w)) uid k = None"
    if "consents k = None" "k \<notin> {''user_id'', ''timestamp'', ''expiry_date''}"
    using that by (simp add: stored_field_def stored consent_document_key)
  have inherit: "\<not> type_denied (consent_document uid (utcnow_stamp e)
                              (utcnow_expiry e + default_expiry cfg) consents) dt"
    if "consents (dt @ ''_consent'') = None"
    using that
    by (simp add: type_denied_def consent_document_key consent_key_not_computed)
  show ?thesis
    using stored gone inherit by (simp add: r)
qed

theorem register_consent_replaces_witness:
  "set (required_consents cfg0) \<subseteq> dom consents_a \<and> set (required_consents cfg0) \<subseteq> dom consents_b
   \<and> set_raises env_ok = None \<and> ref_raises env_ok = None
   \<and> representable (utcnow_expiry env_ok + default_expiry cfg0)
   \<and> stored_field (snd (register_consent cfg0 env_ok ''u1'' consents_a world0)) ''u1'' ''email_consent''
       = Some (VBool False)
   \<and> fst (verify_consent env_ok ''u1'' ''email''
            (snd (register_consent cfg0 env_ok ''u1'' consents_a world0))) = Inr False
   \<and> consents_b ''email_consent'' = None
   \<and> fst (register_consent cfg0 env_ok ''u1'' consents_b
            (snd (register_consent cfg0 env_ok ''u1'' consents_a world0))) = Inr True
   \<and> stored_field
        (snd (register_consent cfg0 env_ok ''u1'' consents_b
               (snd (register_consent cfg0 env_ok ''u1'' consents_a world0))))
        ''u1'' ''email_consent'' = None
   \<and> \<not> type_denied (consent_document ''u1'' 100 465 consents_b) ''email''
   \<and> user_consents
        (snd (register_consent cfg0 env_ok ''u1'' consents_b
               (snd (register_consent cfg0 env_ok ''u1'' consents_a world0)))) ''u1''
       = Some (consent_document ''u1'' 100 465 consents_b)"
proof -
  let ?w1 = "snd (register_consent cfg0 env_ok ''u1'' consents_a world0)"
  let ?w2 = "snd (register_consent cfg0 env_ok ''u1'' consents_b ?w1)"
  have ha: "set (required_consents cfg0) \<subseteq> dom consents_a"
    and hb: "set (required_consents cfg0) \<subseteq> dom consents_b"
    by (simp_all add: cfg0_def consents_a_def consents_b_def)
  have e: "set_raises env_ok = None" "ref_raises env_ok = None"
    "representable (utcnow_expiry env_ok + default_expiry cfg0)"
    by (simp_all add: env_ok_def cfg0_def representable_def datetime_max_def)
  have n: "get_raises env_ok = None" "utcnow_stamp env_ok = 100"
    "utcnow_expiry env_ok + default_expiry cfg0 = 465"
    by (simp_all add: env_ok_def cfg0_def)
  have kb: "consents_b ''email_consent'' = None" "consents_b (''email'' @ ''_consent'') = None"
    by (simp_all add: consents_b_def)
  note ta = register_consent_replaces [OF ha e, of "''u1''" world0]
  note tb = register_consent_replaces
              [OF hb e, where uid = "''u1''" and w = ?w1 and k = "''email_consent''"
                 and dt = "''email''"]
  have da: "user_consents ?w1 ''u1''
              = Some (consent_document ''u1'' (utcnow_stamp env_ok)
                        (utcnow_expiry env_ok + default_expiry cfg0) consents_a)"
    using ta by blast
  have sb: "fst (register_consent cfg0 env_ok ''u1'' consents_b ?w1) = Inr True"
    and db: "user_consents ?w2 ''u1''
               = Some (consent_document ''u1'' (utcnow_stamp env_ok)
                         (utcnow_expiry env_ok + default_expiry cfg0) consents_b)"
    and gone: "stored_field ?w2 ''u1'' ''email_consent'' = None"
    and free: "\<not> type_denied (consent_document ''u1'' (utcnow_stamp env_ok)
                              (utcnow_expiry env_ok + default_expiry cfg0) consents_b) ''email''"
    using tb kb by simp_all
  have fa: "stored_field ?w1 ''u1'' ''email_consent'' = Some (VBool False)"
    unfolding stored_field_def da by (simp add: consent_document_key consents_a_def)
  have va: "fst (verify_consent env_ok ''u1'' ''email'' ?w1) = Inr False"
    unfolding fst_verify_consent_stored [OF n(1) da]
    by (simp add: global_flag_def type_denied_def dict_get_def consent_document_key
        consents_a_def)
  show ?thesis
    using ha hb e fa va kb(1) sb gone free db by (simp add: n)
qed

section \<open>The expiry date of a registered document\<close>

text \<open>
  Claim C7, as the specification states it: every document persisted by a successful
  registration expires at the registration time plus the validity, and never before its
  timestamp. It fails for a consents mapping that carries the key \<^verbatim>\<open>expiry_date\<close>: the
  registration succeeds and the stored expiry date is the caller's, here 0, neither
  \<open>100 + 365\<close> nor at or after the timestamp 100.
\<close>

theorem register_consent_expiry_counterexample:
  "fst (register_consent cfg0 env_ok ''u1'' consents_backdated world0) = Inr True
   \<and> stored_field (snd (register_consent cfg0 env_ok ''u1'' consents_backdated world0))
        ''u1'' ''timestamp'' = Some (VTime Naive 100)
   \<and> stored_field (snd (register_consent cfg0 env_ok ''u1'' consents_backdated world0))
        ''u1'' ''expiry_date'' = Some (VTime Naive 0)
   \<and> utcnow_expiry env_ok + default_expiry cfg0 = 465"
proof -
  have h: "set (required_consents cfg0) \<subseteq> dom consents_backdated" "set_raises env_ok = None"
    "ref_raises env_ok = None" "representable (utcnow_expiry env_ok + default_expiry cfg0)"
    by (simp_all add: cfg0_def consents_backdated_def env_ok_def representable_def
        datetime_max_def)
  show ?thesis
    unfolding stored_field_def register_consent_stored [OF h]
    by (simp add: consent_document_key consents_backdated_def env_ok_def cfg0_def)
qed

text \<open>
  Claim C7, amended. \<^verbatim>\<open>register_consent\<close> has no parameter for a requested validity.
  A successful registration whose consents mapping carries neither the key
  \<^verbatim>\<open>expiry_date\<close> nor the key \<^verbatim>\<open>timestamp\<close> stores a document whose expiry date is the
  clock reading of line 91 plus the configured default validity and whose timestamp is
  the clock reading of line 90; when the default validity is not negative and the clock
  does not go back between the two readings, the expiry date is not earlier than the
  timestamp.
\<close>

theorem register_consent_expiry:
  assumes "set (required_consents cfg) \<subseteq> dom consents" "set_raises e = None"
    "ref_raises e = None" "representable (utcnow_expiry e + default_expiry cfg)"
    "consents ''expiry_date'' = None" "consents ''timestamp'' = None"
  shows "user_consents (snd (register_consent cfg e uid consents w)) uid
           = Some (consent_document uid (utcnow_stamp e)
                     (utcnow_expiry e + default_expiry cfg) consents)
       \<and> consent_document uid (utcnow_stamp e) (utcnow_expiry e + default_expiry cfg)
           consents ''timestamp'' = Some (VTime Naive (utcnow_stamp e))
       \<and> consent_document uid (utcnow_stamp e) (utcnow_expiry e + default_expiry cfg)
           consents ''expiry_date''
           = Some (VTime Naive (utcnow_expiry e + default_expiry cfg))
       \<and> (0 \<le> default_expiry cfg \<and> utcnow_stamp e \<le> utcnow_expiry e \<longrightarrow>
            expiry_not_before_timestamp
              (consent_document uid (utcnow_stamp e) (utcnow_expiry e + default_expiry cfg)
                 consents))"
  using assms(5,6)
  by (simp add: register_consent_stored [OF assms(1-4)] consent_document_key
      expiry_not_before_timestamp_def)

theorem register_consent_expiry_witness:
  "set (required_consents cfg0) \<subseteq> dom consents_a \<and> set_raises env_ok = None
   \<and> ref_raises env_ok = None \<and> representable (utcnow_expiry env_ok + default_expiry cfg0)
   \<and> consents_a ''expiry_date'' = None \<and> consents_a ''timestamp'' = None
   \<and> 0 \<le> default_expiry cfg0 \<and> utcnow_stamp env_ok \<le> utcnow_expiry env_ok
   \<and> stored_field (snd (register_consent cfg0 env_ok ''u1'' consents_a world0))
        ''u1'' ''timestamp'' = Some (VTime Naive 100)
   \<and> stored_field (snd (register_consent cfg0 env_ok ''u1'' consents_a world0))
        ''u1'' ''expiry_date'' = Some (VTime Naive 465)
   \<and> expiry_not_before_timestamp (consent_document ''u1'' 100 465 consents_a)"
proof -
  have h: "set (required_consents cfg0) \<subseteq> dom consents_a" "set_raises env_ok = None"
    "ref_raises env_ok = None" "representable (utcnow_expiry env_ok + default_expiry cfg0)"
    "consents_a ''expiry_date'' = None" "consents_a ''timestamp'' = None"
    by (simp_all add: cfg0_def consents_a_def env_ok_def representable_def datetime_max_def)
  have n: "0 \<le> default_expiry cfg0" "utcnow_stamp env_ok \<le> utcnow_expiry env_ok"
    "utcnow_stamp env_ok = 100" "utcnow_expiry env_ok + default_expiry cfg0 = 465"
    by (simp_all add: cfg0_def env_ok_def)
  note t = register_consent_expiry [OF h, of "''u1''" world0]
  show ?thesis
    using t h n by (simp add: stored_field_def)
qed

section \<open>Fields supplied by the caller\<close>

text \<open>
  Claim C10. The consents mapping is spread after the computed fields, so after a
  successful registration every key of the mapping is stored with the caller's value,
  the keys \<^verbatim>\<open>user_id\<close>, \<^verbatim>\<open>timestamp\<close> and \<^verbatim>\<open>expiry_date\<close> included; a supplied expiry
  date earlier than the computed timestamp gives a stored document whose expiry date is
  earlier than its timestamp.
\<close>

theorem register_consent_caller_fields:
  assumes "set (required_consents cfg) \<subseteq> dom consents" "set_raises e = None"
    "ref_raises e = None" "representable (utcnow_expiry e + default_expiry cfg)"
    "consents k = Some v"
  shows "fst (register_consent cfg e uid consents w) = Inr True
       \<and> stored_field (snd (register_consent cfg e uid consents w)) uid k = Some v
       \<and> (k = ''expiry_date'' \<and> v = VTime z t \<and> consents ''timestamp'' = None
            \<and> t < utcnow_stamp e \<longrightarrow>
            \<not> expiry_not_before_timestamp
                (consent_document uid (utcnow_stamp e)
                   (utcnow_expiry e + default_expiry cfg) consents))"
  using assms(5)
  by (auto simp add: register_consent_stored [OF assms(1-4)] stored_field_def
      consent_document_key expiry_not_before_timestamp_def)

theorem register_consent_caller_fields_witness:
  "set (required_consents cfg0) \<subseteq> dom consents_forged \<and> set_raises env_ok = None
   \<and> ref_raises env_ok = None \<and> representable (utcnow_expiry env_ok + default_expiry cfg0)
   \<and> consents_forged ''user_id'' = Some (VStr ''u2'')
   \<and> consents_forged ''expiry_date'' = Some (VTime Naive 10)
   \<and> consents_forged ''timestamp'' = None \<and> 10 < utcnow_stamp env_ok
   \<and> fst (register_consent cfg0 env_ok ''u1'' consents_forged world0) = Inr True
   \<and> stored_field (snd (register_consent cfg0 env_ok ''u1'' consents_forged world0))
        ''u1'' ''user_id'' = Some (VStr ''u2'')
   \<and> stored_field (snd (register_consent cfg0 env_ok ''u1'' consents_forged world0))
        ''u1'' ''expiry_date'' = Some (VTime Naive 10)
   \<and> stored_field (snd (register_consent cfg0 env_ok ''u1'' consents_forged world0))
        ''u1'' ''timestamp'' = Some (VTime Naive 100)
   \<and> \<not> expiry_not_before_timestamp (consent_document ''u1'' 100 465 consents_forged)"
proof -
  let ?w = "snd (register_consent cfg0 env_ok ''u1'' consents_forged world0)"
  have h: "set (required_consents cfg0) \<subseteq> dom consents_forged" "set_raises env_ok = None"
    "ref_raises env_ok = None" "representable (utcnow_expiry env_ok + default_expiry cfg0)"
    by (simp_all add: cfg0_def consents_forged_def env_ok_def representable_def
        datetime_max_def)
  have k: "consents_forged ''user_id'' = Some (VStr ''u2'')"
    "consents_forged ''expiry_date'' = Some (VTime Naive 10)"
    "consents_forged ''timestamp'' = None"
    by (simp_all add: consents_forged_def)
  have n: "10 < utcnow_stamp env_ok" "utcnow_stamp env_ok = 100"
    "utcnow_expiry env_ok + default_expiry cfg0 = 465"
    by (simp_all add: env_ok_def cfg0_def)
  note tu = register_consent_caller_fields [OF h k(1), of "''u1''" world0 Naive 0]
  note te = register_consent_caller_fields [OF h k(2), of "''u1''" world0 Naive 10]
  have ts: "stored_field ?w ''u1'' ''timestamp'' = Some (VTime Naive 100)"
    unfolding stored_field_def register_consent_stored [OF h]
    by (simp add: consent_document_key k n)
  show ?thesis
    using tu te h k n ts by simp
qed

section \<open>Failures of the audit write\<close>

text \<open>
  Claim C8. \<^verbatim>\<open>_log_audit\<close> never raises: whatever the audit write does, it returns
  normally, leaves the consent documents alone, and a failed write appears only as the
  line "Audit logging failed: ..." of the error log. The result of \<^verbatim>\<open>verify_consent\<close>
  and the result and the stored documents of \<^verbatim>\<open>register_consent\<close> are the same
  whether the audit write goes through or raises.
\<close>

theorem log_audit_never_raises:
  "fst (log_audit e uid action success w) = Inr ()
   \<and> user_consents (snd (log_audit e uid action success w)) = user_consents w
   \<and> error_log (snd (log_audit e uid action success w))
       = (case audit_raises e of
            None \<Rightarrow> error_log w
          | Some x \<Rightarrow> error_log w @ [''Audit logging failed: '' @ str_exn x])
   \<and> fst (verify_consent (e\<lparr>audit_raises := r\<rparr>) uid dt w) = fst (verify_consent e uid dt w)
   \<and> fst (register_consent cfg (e\<lparr>audit_raises := r\<rparr>) uid consents w)
       = fst (register_consent cfg e uid consents w)
   \<and> user_consents (snd (register_consent cfg (e\<lparr>audit_raises := r\<rparr>) uid consents w))
       = user_consents (snd (register_consent cfg e uid consents w))"
proof -
  have v: "fst (verify_consent (e\<lparr>audit_raises := r\<rparr>) uid dt w) = fst (verify_consent e uid dt w)"
  proof -
    have x: "expired (e\<lparr>audit_raises := r\<rparr>) = expired e"
      by (rule ext) (simp add: expired_def Let_def)
    have g: "doc_get (e\<lparr>audit_raises := r\<rparr>) uid w = doc_get e uid w"
      by (simp add: doc_get_def)
    show ?thesis
      unfolding fst_verify_consent fst_verify_try x g by (rule refl)
  qed
  have g: "fst (register_consent cfg e' uid consents w) =
      (case ref_raises e' of
         Some x \<Rightarrow> Inr False
       | None \<Rightarrow>
           (case datetime_add (utcnow_expiry e') (default_expiry cfg) of
              Inl x \<Rightarrow> Inr False
            | Inr expiry_date \<Rightarrow>
                (case validate_required (required_consents cfg) consents of
                   Inl x \<Rightarrow> Inr False
                 | Inr u \<Rightarrow> (case set_raises e' of Some x \<Rightarrow> Inr False | None \<Rightarrow> Inr True))))"
    and s: "user_consents (snd (register_consent cfg e' uid consents w)) =
      (case ref_raises e' of
         Some x \<Rightarrow> user_consents w
       | None \<Rightarrow>
           (case datetime_add (utcnow_expiry e') (default_expiry cfg) of
              Inl x \<Rightarrow> user_consents w
            | Inr expiry_date \<Rightarrow>
                (case validate_required (required_consents cfg) consents of
                   Inl x \<Rightarrow> user_consents w
                 | Inr u \<Rightarrow>
                     (case set_raises e' of
                        Some x \<Rightarrow> user_consents w
                      | None \<Rightarrow>
                          (user_consents w)
                            (uid \<mapsto> consent_document uid (utcnow_stamp e')
                                      expiry_date consents)))))"
    for e'
    by (simp_all add: register_consent_def register_try_cases returning_log_audit
        split: sum.splits option.splits)
  have f: "ref_raises (e\<lparr>audit_raises := r\<rparr>) = ref_raises e"
    "set_raises (e\<lparr>audit_raises := r\<rparr>) = set_raises e"
    "utcnow_expiry (e\<lparr>audit_raises := r\<rparr>) = utcnow_expiry e"
    "utcnow_stamp (e\<lparr>audit_raises := r\<rparr>) = utcnow_stamp e"
    by simp_all
  have rg: "fst (register_consent cfg (e\<lparr>audit_raises := r\<rparr>) uid consents w)
       = fst (register_consent cfg e uid consents w)"
    unfolding g f by (rule refl)
  have rs: "user_consents (snd (register_consent cfg (e\<lparr>audit_raises := r\<rparr>) uid consents w))
       = user_consents (snd (register_consent cfg e uid consents w))"
    unfolding s f by (rule refl)
  show ?thesis
    by (simp add: log_audit_fst error_log_log_audit v rg rs)
qed

theorem log_audit_never_raises_witness:
  "audit_raises env_audit_down = Some (OtherException ''audit sink unreachable'')
   \<and> fst (log_audit env_audit_down ''u1'' ''New consent registered'' True world0) = Inr ()
   \<and> error_log (snd (log_audit env_audit_down ''u1'' ''New consent registered'' True world0))
       = [''Audit logging failed: audit sink unreachable'']
   \<and> fst (register_consent cfg0 env_audit_down ''u1'' consents_a world0) = Inr True
   \<and> stored_field (snd (register_consent cfg0 env_audit_down ''u1'' consents_a world0))
        ''u1'' ''email_consent'' = Some (VBool False)
   \<and> fst (verify_consent env_audit_down ''u1'' ''email'' (world_of doc_open)) = Inr True"
proof -
  have d: "env_audit_down = env_ok\<lparr>audit_raises := Some (OtherException ''audit sink unreachable'')\<rparr>"
    by (simp add: env_audit_down_def)
  have a: "audit_raises env_audit_down = Some (OtherException ''audit sink unreachable'')"
    by (simp add: env_audit_down_def)
  note t = log_audit_never_raises
      [where e = env_audit_down and uid = "''u1''" and action = "''New consent registered''"
         and success = True and w = world0]
  note u = log_audit_never_raises
      [where e = env_ok and r = "Some (OtherException ''audit sink unreachable'')"
         and uid = "''u1''" and cfg = cfg0 and consents = consents_a and w = world0]
  note v = log_audit_never_raises
      [where e = env_ok and r = "Some (OtherException ''audit sink unreachable'')"
         and uid = "''u1''" and dt = "''email''" and w = "world_of doc_open"]
  have h: "set (required_consents cfg0) \<subseteq> dom consents_a" "set_raises env_ok = None"
    "ref_raises env_ok = None" "representable (utcnow_expiry env_ok + default_expiry cfg0)"
    by (simp_all add: cfg0_def consents_a_def env_ok_def representable_def datetime_max_def)
  have ok: "fst (register_consent cfg0 env_ok ''u1'' consents_a world0) = Inr True"
    "user_consents (snd (register_consent cfg0 env_ok ''u1'' consents_a world0)) ''u1''
       = Some (consent_document ''u1'' (utcnow_stamp env_ok)
                 (utcnow_expiry env_ok + default_expiry cfg0) consents_a)"
    by (simp_all add: register_consent_stored [OF h])
  have f: "consent_document ''u1'' (utcnow_stamp env_ok)
             (utcnow_expiry env_ok + default_expiry cfg0) consents_a ''email_consent''
           = Some (VBool False)"
    by (simp add: consent_document_key consents_a_def)
  have g: "get_raises env_ok = None" "user_consents (world_of doc_open) ''u1'' = Some doc_open"
    by (simp_all add: env_ok_def world_of_def world0_def)
  have vo: "fst (verify_consent env_ok ''u1'' ''email'' (world_of doc_open)) = Inr True"
  proof -
    have "\<not> truthy (dict_get doc_open ''expiry_date'' VNone)"
      by (simp add: dict_get_def doc_open_def)
    then have "expired env_ok (to_dict doc_open) = Inr False"
      by (rule expired_to_dict(1))
    then show ?thesis
      unfolding fst_verify_consent_stored [OF g]
      by (simp add: global_flag_def type_denied_def dict_get_def doc_open_def)
  qed
  have e0: "error_log world0 = []"
    by (simp add: world0_def)
  show ?thesis
    using t u v ok f vo a e0 by (simp add: d [symmetric] stored_field_def)
qed

section \<open>The requests of the violation responder\<close>

text \<open>
  Claim C9, as the specification states it: the redaction request is issued if and only
  if the data type is redactable. It fails when the first call of \<^verbatim>\<open>requests.post\<close>
  raises: the exception leaves \<^verbatim>\<open>handle_data_violation\<close> before the second call, and no
  redaction request is issued for the redactable data type \<^verbatim>\<open>email\<close>.
\<close>

theorem handle_data_violation_counterexample:
  "''email'' \<in> set redactable
   \<and> fst (handle_data_violation cfg0 env_block_down ''u1'' ''email'' world0)
       = Inl (OtherException ''connection refused'')
   \<and> posted (snd (handle_data_violation cfg0 env_block_down ''u1'' ''email'' world0))
       = [block_request cfg0 ''u1'']
   \<and> redact_request cfg0 ''u1'' ''email''
       \<notin> set (posted (snd (handle_data_violation cfg0 env_block_down ''u1'' ''email'' world0)))"
  by (simp add: handle_data_violation_def requests_post_def env_block_down_def env_ok_def
      world0_def redactable_def block_request_def redact_request_def)

text \<open>
  Claim C9, amended. Every call of \<^verbatim>\<open>handle_data_violation\<close> hands the block-processing
  request for the user to \<^verbatim>\<open>requests.post\<close> first; the redaction request for the user
  and the data type is issued after it if and only if the data type is \<^verbatim>\<open>email\<close> or
  \<^verbatim>\<open>phone_number\<close> and the first call returned without raising. No other request is
  issued.
\<close>

theorem handle_data_violation_requests:
  "posted (snd (handle_data_violation cfg e uid dt w)) =
     posted w @ [block_request cfg uid]
       @ (if post_block_raises e = None \<and> dt \<in> set redactable
          then [redact_request cfg uid dt] else [])"
  by (simp add: handle_data_violation_def requests_post_def split: option.splits)

end
